theory Spec2Isabelle
  imports Complex_Main "HOL-Library.Sublist" "HOL-Library.Code_Target_Numeral"
begin

section \<open>Python values, exceptions and strings\<close>

text \<open>
  The exception classes that \<^verbatim>\<open>snakemake/logging.py\<close> distinguishes or can raise.
  \<open>KeyboardInterrupt\<close>, \<open>SystemExit\<close> and \<open>GeneratorExit\<close> derive from
  \<^verbatim>\<open>BaseException\<close> only; every other class derives from \<^verbatim>\<open>Exception\<close>.
\<close>

datatype pyexn =
    BrokenPipeError
  | KeyboardInterrupt
  | SystemExit
  | GeneratorExit
  | AttributeError
  | ZeroDivisionError
  | OverflowError
  | OtherException string

fun is_Exception :: "pyexn \<Rightarrow> bool" where
  "is_Exception KeyboardInterrupt = False"
| "is_Exception SystemExit = False"
| "is_Exception GeneratorExit = False"
| "is_Exception _ = True"

text \<open>
  The scalar values the fields of a log message hold: \<^verbatim>\<open>None\<close>, an integer or a string.
\<close>

datatype pyval = PNone | PInt int | PStr string

text \<open>Truth value testing, as \<^verbatim>\<open>if value:\<close> does.\<close>

fun truthy :: "pyval \<Rightarrow> bool" where
  "truthy PNone = False"
| "truthy (PInt i) = (i \<noteq> 0)"
| "truthy (PStr s) = (s \<noteq> [])"

definition digit_char :: "nat \<Rightarrow> char" where
  "digit_char d = ''0123456789'' ! d"

fun str_nat :: "nat \<Rightarrow> string" where
  "str_nat n = (if n < 10 then [digit_char n] else str_nat (n div 10) @ [digit_char (n mod 10)])"

declare str_nat.simps [simp del]

text \<open>\<^verbatim>\<open>str(i)\<close> for an integer: decimal digits, with a minus sign when negative.\<close>

definition str_int :: "int \<Rightarrow> string" where
  "str_int i = (if i < 0 then CHR ''-'' # str_nat (nat (- i)) else str_nat (nat i))"

text \<open>\<^verbatim>\<open>str(value)\<close>, which is also what \<^verbatim>\<open>"{}".format(value)\<close> renders.\<close>

fun py_str :: "pyval \<Rightarrow> string" where
  "py_str PNone = ''None''"
| "py_str (PInt i) = str_int i"
| "py_str (PStr s) = s"

text \<open>\<^verbatim>\<open>sep.join(items)\<close> on a list of strings.\<close>

fun join_str :: "string \<Rightarrow> string list \<Rightarrow> string" where
  "join_str sep [] = []"
| "join_str sep [x] = x"
| "join_str sep (x # y # ys) = x @ sep @ join_str sep (y # ys)"

section \<open>Double-precision arithmetic used by the progress percentage\<close>

text \<open>
  \<^verbatim>\<open>done / total\<close> on two Python integers is true division: the exact quotient rounded
  to the nearest IEEE 754 double, ties to even. The format specification \<^verbatim>\<open>{:.0%}\<close>
  multiplies that double by 100 (a double multiplication, rounded again) and prints the
  product with zero decimals, the exact value of the double rounded to the nearest
  integer, ties to even. A double is modelled by its sign and its magnitude, an exact
  rational.
\<close>

datatype pyfloat = Finite bool rat | Infinite bool

definition pow2 :: "int \<Rightarrow> rat" where
  "pow2 n = (if 0 \<le> n then 2 ^ nat n else 1 / 2 ^ nat (- n))"

text \<open>Round to the nearest integer, ties to the even one.\<close>

definition round_half_even :: "rat \<Rightarrow> int" where
  "round_half_even x =
     (let f = \<lfloor>x\<rfloor>; r = x - of_int f
      in if r < 1 / 2 then f else if 1 / 2 < r then f + 1 else if even f then f else f + 1)"

fun bitlen :: "nat \<Rightarrow> nat" where
  "bitlen n = (if n = 0 then 0 else Suc (bitlen (n div 2)))"

declare bitlen.simps [simp del]

text \<open>For \<open>0 < x\<close>, the exponent \<open>e\<close> with \<open>2\<^sup>e \<le> x < 2\<^sup>e\<^sup>+\<^sup>1\<close>.\<close>

definition ilog2 :: "rat \<Rightarrow> int" where
  "ilog2 x =
     (let (p, q) = quotient_of x;
          d = int (bitlen (nat p)) - int (bitlen (nat q))
      in if pow2 d \<le> x then d else d - 1)"

text \<open>
  The double nearest to a non-negative rational, before the overflow check: 53 bits of
  significand in the normal range, multiples of \<open>2\<^sup>-\<^sup>1\<^sup>0\<^sup>7\<^sup>4\<close> below it.
\<close>

definition round_double :: "rat \<Rightarrow> rat" where
  "round_double x =
     (if x \<le> 0 then 0
      else let q = pow2 (max (ilog2 x - 52) (- 1074))
           in of_int (round_half_even (x / q)) * q)"

definition double_overflows :: "rat \<Rightarrow> bool" where
  "double_overflows r = (pow2 1024 \<le> r)"

text \<open>\<^verbatim>\<open>a / b\<close> on integers.\<close>

definition py_truediv :: "int \<Rightarrow> int \<Rightarrow> pyexn + pyfloat" where
  "py_truediv a b =
     (if b = 0 then Inl ZeroDivisionError
      else let neg = ((a < 0) \<noteq> (b < 0));
               r = round_double (of_int \<bar>a\<bar> / of_int \<bar>b\<bar>)
           in if double_overflows r then Inl OverflowError else Inr (Finite neg r))"

text \<open>\<^verbatim>\<open>val *= 100\<close> on a double.\<close>

fun times100 :: "pyfloat \<Rightarrow> pyfloat" where
  "times100 (Finite neg m) =
     (let r = round_double (m * 100)
      in if double_overflows r then Infinite neg else Finite neg r)"
| "times100 (Infinite neg) = Infinite neg"

text \<open>\<^verbatim>\<open>"{:.0%}".format(val)\<close>.\<close>

definition format_percent0 :: "pyfloat \<Rightarrow> string" where
  "format_percent0 val =
     (case times100 val of
        Finite neg m \<Rightarrow>
          (if neg then ''-'' else '''') @ str_nat (nat (round_half_even m)) @ ''%''
      | Infinite neg \<Rightarrow> (if neg then ''-'' else '''') @ ''inf%'')"

section \<open>Resource formatter\<close>

definition omit_resources_default :: "string list" where
  "omit_resources_default = [''_cores'', ''_nodes'']"

text \<open>
  A resources dictionary is an association list in insertion order.
\<close>

definition format_resources_omit :: "(string \<times> pyval) list \<Rightarrow> string list \<Rightarrow> string" where
  "format_resources_omit resources omit_resources =
     join_str '', ''
       (map (\<lambda>(name, value). name @ ''='' @ py_str value)
         (filter (\<lambda>(name, value). name \<notin> set omit_resources) resources))"

definition format_resources :: "(string \<times> pyval) list \<Rightarrow> string" where
  "format_resources resources = format_resources_omit resources omit_resources_default"

definition format_resource_names_omit :: "(string \<times> pyval) list \<Rightarrow> string list \<Rightarrow> string" where
  "format_resource_names_omit resources omit_resources =
     join_str '', '' (filter (\<lambda>name. name \<notin> set omit_resources) (map fst resources))"

definition format_resource_names :: "(string \<times> pyval) list \<Rightarrow> string" where
  "format_resource_names resources = format_resource_names_omit resources omit_resources_default"

section \<open>The colorizing stream handler\<close>

text \<open>
  The output stream: whether it has an \<^verbatim>\<open>isatty\<close> method and what the method returns,
  and the text written to it so far.
\<close>

record stream =
  isatty :: "bool option"
  written :: string

record ColorizingStreamHandler =
  nocolor :: bool
  timestamp :: bool
  terminator :: string

text \<open>A log record of the logging engine; \<open>message\<close> is set when the record is formatted.\<close>

record log_record =
  levelname :: string
  msg :: string
  message :: string

text \<open>\<^verbatim>\<open>BLACK, RED, GREEN, YELLOW, BLUE, MAGENTA, CYAN, WHITE = range(8)\<close>\<close>

definition RED :: int where "RED = 1"
definition GREEN :: int where "GREEN = 2"
definition YELLOW :: int where "YELLOW = 3"
definition BLUE :: int where "BLUE = 4"

definition RESET_SEQ :: string where
  "RESET_SEQ = CHR 0x1B # ''[0m''"

text \<open>\<^verbatim>\<open>COLOR_SEQ % n\<close> with \<^verbatim>\<open>COLOR_SEQ = "\033[%dm"\<close>.\<close>

definition COLOR_SEQ :: "int \<Rightarrow> string" where
  "COLOR_SEQ n = CHR 0x1B # ''['' @ str_int n @ ''m''"

definition colors :: "(string \<times> int) list" where
  "colors =
     [(''WARNING'', YELLOW), (''INFO'', GREEN), (''DEBUG'', BLUE),
      (''CRITICAL'', RED), (''ERROR'', RED)]"

text \<open>
  \<^verbatim>\<open>isatty = getattr(self.stream, 'isatty', None); return isatty and isatty()\<close>,
  read as a truth value.
\<close>

definition is_tty :: "stream \<Rightarrow> bool" where
  "is_tty s = (case isatty s of None \<Rightarrow> False | Some b \<Rightarrow> b)"

text \<open>
  The constructor; \<open>platform_system\<close> is what \<^verbatim>\<open>platform.system()\<close> returns. The
  terminator is the one of \<^verbatim>\<open>logging.StreamHandler\<close>.
\<close>

definition ColorizingStreamHandler_init ::
    "string \<Rightarrow> bool \<Rightarrow> stream \<Rightarrow> bool \<Rightarrow> ColorizingStreamHandler" where
  "ColorizingStreamHandler_init platform_system nocolor_arg s timestamp_arg =
     \<lparr>nocolor = (nocolor_arg \<or> \<not> is_tty s \<or> platform_system = ''Windows''),
      timestamp = timestamp_arg,
      terminator = [CHR 0x0A]\<rparr>"

text \<open>\<open>asctime\<close> is what \<^verbatim>\<open>time.asctime()\<close> returns at the call.\<close>

definition decorate :: "ColorizingStreamHandler \<Rightarrow> string \<Rightarrow> log_record \<Rightarrow> string" where
  "decorate self asctime record =
     (let message0 = [message record];
          message1 = (if timestamp self then (''['' @ asctime @ ''] '') # message0 else message0);
          message2 =
            (case (if \<not> nocolor self then map_of colors (levelname record) else None) of
               Some c \<Rightarrow> COLOR_SEQ (30 + c) # message1 @ [RESET_SEQ]
             | None \<Rightarrow> message1)
      in concat message2)"

text \<open>
  What each step of \<^verbatim>\<open>emit\<close> raises, if anything: formatting the record, writing the
  decorated text, writing the terminator, flushing.
\<close>

record faults =
  on_format :: "pyexn option"
  on_write :: "pyexn option"
  on_write_terminator :: "pyexn option"
  on_flush :: "pyexn option"

definition no_faults :: faults where
  "no_faults = \<lparr>on_format = None, on_write = None, on_write_terminator = None, on_flush = None\<rparr>"

text \<open>\<^verbatim>\<open>self.format(record)\<close> adds the message to the record.\<close>

definition format_record :: "log_record \<Rightarrow> log_record" where
  "format_record record = record\<lparr>message := msg record\<rparr>"

text \<open>
  The body of the \<^verbatim>\<open>try\<close> block: the exception that leaves it, if any, and the text
  on the stream at that point.
\<close>

definition emit_try ::
    "ColorizingStreamHandler \<Rightarrow> string \<Rightarrow> faults \<Rightarrow> log_record \<Rightarrow> string \<Rightarrow> pyexn option \<times> string" where
  "emit_try self asctime fl record out =
     (case on_format fl of
        Some e \<Rightarrow> (Some e, out)
      | None \<Rightarrow>
         (let record1 = format_record record in
           (case on_write fl of
              Some e \<Rightarrow> (Some e, out)
            | None \<Rightarrow>
               (let out1 = out @ decorate self asctime record1 in
                 (case on_write_terminator fl of
                    Some e \<Rightarrow> (Some e, out1)
                  | None \<Rightarrow>
                     (let out2 = out1 @ terminator self in
                       (case on_flush fl of
                          Some e \<Rightarrow> (Some e, out2)
                        | None \<Rightarrow> (None, out2))))))))"

record emit_result =
  raised :: "pyexn option"
  handleError_called :: bool
  stream_out :: string

text \<open>
  \<^verbatim>\<open>emit\<close>: the \<^verbatim>\<open>except\<close> clauses in their order. The embedding is sequential, so
  the output lock held around the block is not part of it.
\<close>

definition emit ::
    "ColorizingStreamHandler \<Rightarrow> string \<Rightarrow> faults \<Rightarrow> log_record \<Rightarrow> string \<Rightarrow> emit_result" where
  "emit self asctime fl record out =
     (case emit_try self asctime fl record out of
        (None, out') \<Rightarrow> \<lparr>raised = None, handleError_called = False, stream_out = out'\<rparr>
      | (Some e, out') \<Rightarrow>
          if e = BrokenPipeError then
            \<lparr>raised = Some e, handleError_called = False, stream_out = out'\<rparr>
          else if e = KeyboardInterrupt \<or> e = SystemExit then
            \<lparr>raised = None, handleError_called = False, stream_out = out'\<rparr>
          else if is_Exception e then
            \<lparr>raised = None, handleError_called = True, stream_out = out'\<rparr>
          else
            \<lparr>raised = Some e, handleError_called = False, stream_out = out'\<rparr>)"

section \<open>The logger\<close>

text \<open>
  The calls to the underlying logging engine: \<^verbatim>\<open>self.logger.debug\<close>,
  \<^verbatim>\<open>self.logger.info\<close>, \<^verbatim>\<open>self.logger.warning\<close> and \<^verbatim>\<open>self.logger.error\<close> are
  a severity and the message passed.
\<close>

datatype loglevel = DEBUG | INFO | WARNING | ERROR | CRITICAL

fun levelno :: "loglevel \<Rightarrow> nat" where
  "levelno DEBUG = 10"
| "levelno INFO = 20"
| "levelno WARNING = 30"
| "levelno ERROR = 40"
| "levelno CRITICAL = 50"

fun getLevelName :: "loglevel \<Rightarrow> string" where
  "getLevelName DEBUG = ''DEBUG''"
| "getLevelName INFO = ''INFO''"
| "getLevelName WARNING = ''WARNING''"
| "getLevelName ERROR = ''ERROR''"
| "getLevelName CRITICAL = ''CRITICAL''"

type_synonym log_call = "loglevel \<times> string"

text \<open>
  What a handler does with a message: the calls it makes to the logging engine, in order,
  and the exception that ends it, if any.
\<close>

type_synonym hresult = "log_call list \<times> pyexn option"

text \<open>The message dictionary of a \<^verbatim>\<open>job_info\<close> event, by key.\<close>

record job_msg =
  msg_name :: string
  msg_local :: bool
  msg_input :: "string list"
  msg_output :: "string list"
  msg_log :: pyval
  msg_reason :: pyval
  msg_priority :: pyval
  msg_threads :: pyval
  msg_resources :: "(string \<times> pyval) list"
  msg_shellcmd :: pyval
  msg_msg :: pyval

text \<open>
  The message dictionaries the methods of \<^verbatim>\<open>Logger\<close> build, by their \<^verbatim>\<open>level\<close> key.
  The node and link descriptors of \<^verbatim>\<open>d3dag\<close> are opaque.
\<close>

datatype 'n event =
    Info string
  | Debug string
  | Error string
  | Progress int int
  | Resources_info string
  | Run_info string
  | Job_info job_msg
  | D3dag 'n 'n

text \<open>
  The state of the \<^verbatim>\<open>Logger\<close> object. \<open>handler = None\<close> is the bound method
  \<^verbatim>\<open>self.console_handler\<close>; \<open>level\<close> is the level of the underlying engine logger
  (\<open>None\<close> when never set); \<open>quiet = None\<close> is the attribute not being there.
\<close>

record 'n Logger =
  handler :: "('n event \<Rightarrow> hresult) option"
  stream_handler :: "ColorizingStreamHandler option"
  level :: "loglevel option"
  quiet :: "bool option"
  printshellcmds :: bool
  printreason :: bool

definition Logger_init :: "'n Logger" where
  "Logger_init =
     \<lparr>handler = None, stream_handler = None, level = None, quiet = None,
      printshellcmds = False, printreason = False\<rparr>"

definition set_stream_handler :: "'n Logger \<Rightarrow> ColorizingStreamHandler \<Rightarrow> 'n Logger" where
  "set_stream_handler self sh = self\<lparr>stream_handler := Some sh\<rparr>"

definition set_level :: "'n Logger \<Rightarrow> loglevel \<Rightarrow> 'n Logger" where
  "set_level self lvl = self\<lparr>level := Some lvl\<rparr>"

text \<open>
  The nested \<^verbatim>\<open>format_item\<close>, with \<^verbatim>\<open>value = msg[item]\<close> passed in: \<open>None\<close> is
  the implicit \<^verbatim>\<open>return None\<close>.
\<close>

definition format_item :: "string \<Rightarrow> 'a \<Rightarrow> 'a \<Rightarrow> ('a \<Rightarrow> string) \<Rightarrow> string option" where
  "format_item item value omit valueformat =
     (if value \<noteq> omit then Some (CHR 0x09 # item @ '': '' @ valueformat value) else None)"

text \<open>\<^verbatim>\<open>if fmt != None: yield fmt\<close>\<close>

fun yield_fmt :: "string option \<Rightarrow> string list" where
  "yield_fmt None = []"
| "yield_fmt (Some fmt) = [fmt]"

text \<open>The nested generator \<^verbatim>\<open>job_info\<close>: the lines it yields, in order.\<close>

definition job_info_lines :: "'n Logger \<Rightarrow> job_msg \<Rightarrow> string list" where
  "job_info_lines self m =
     [(if msg_local m then ''local'' else '''') @ ''rule '' @ msg_name m @ '':'']
     @ concat (map (\<lambda>(item, value). yield_fmt (format_item item value [] (join_str '', '')))
         [(''input'', msg_input m), (''output'', msg_output m)])
     @ (let singleitems =
              [(''log'', msg_log m)] @ (if printreason self then [(''reason'', msg_reason m)] else [])
        in concat (map (\<lambda>(item, value). yield_fmt (format_item item value PNone py_str))
             singleitems))
     @ concat (map (\<lambda>((item, value), omit). yield_fmt (format_item item value omit py_str))
         (zip [(''priority'', msg_priority m), (''threads'', msg_threads m)] [PInt 0, PInt 1]))
     @ (let resources = format_resources (msg_resources m)
        in if resources \<noteq> [] then [CHR 0x09 # ''resources: '' @ resources] else [])"

text \<open>
  The text of a progress line; the quotient is computed before the string is formatted.
\<close>

definition progress_text :: "int \<Rightarrow> int \<Rightarrow> pyexn + string" where
  "progress_text done' total' =
     (case py_truediv done' total' of
        Inl e \<Rightarrow> Inl e
      | Inr ratio \<Rightarrow>
          Inr (str_int done' @ '' of '' @ str_int total' @ '' steps ('' @ format_percent0 ratio
               @ '') done''))"

text \<open>
  The default handler. \<open>dumps nodes links\<close> is what
  \<^verbatim>\<open>json.dumps({"nodes": nodes, "links": links})\<close> does: it raises or returns a text.
\<close>

definition console_handler ::
    "('n \<Rightarrow> 'n \<Rightarrow> pyexn + string) \<Rightarrow> 'n Logger \<Rightarrow> 'n event \<Rightarrow> hresult" where
  "console_handler dumps self ev =
     (case ev of
        Info m \<Rightarrow> ([(WARNING, m)], None)
      | Error m \<Rightarrow> ([(ERROR, m)], None)
      | Debug m \<Rightarrow> ([(DEBUG, m)], None)
      | Resources_info m \<Rightarrow> ([(WARNING, m)], None)
      | Run_info m \<Rightarrow> ([(WARNING, m)], None)
      | Progress done' total' \<Rightarrow>
          (case quiet self of
             None \<Rightarrow> ([], Some AttributeError)
           | Some q \<Rightarrow>
               (if \<not> q then
                  (case progress_text done' total' of
                     Inl e \<Rightarrow> ([], Some e)
                   | Inr text \<Rightarrow> ([(INFO, text)], None))
                else ([], None)))
      | Job_info m \<Rightarrow>
          (case quiet self of
             None \<Rightarrow> ([], Some AttributeError)
           | Some q \<Rightarrow>
               (let summary =
                      (if \<not> q then
                         (if msg_msg m \<noteq> PNone then [(INFO, py_str (msg_msg m))]
                          else [(INFO, join_str [CHR 0x0A] (job_info_lines self m))])
                       else [])
                in (if printshellcmds self \<and> truthy (msg_shellcmd m)
                    then (summary @ [(INFO, py_str (msg_shellcmd m))], None)
                    else (summary, None))))
      | D3dag nodes links \<Rightarrow>
          (case dumps nodes links of
             Inl e \<Rightarrow> ([], Some e)
           | Inr text \<Rightarrow> ([], None)))"

text \<open>\<^verbatim>\<open>self.handler(msg)\<close>\<close>

definition call_handler ::
    "('n \<Rightarrow> 'n \<Rightarrow> pyexn + string) \<Rightarrow> 'n Logger \<Rightarrow> 'n event \<Rightarrow> hresult" where
  "call_handler dumps self ev =
     (case handler self of None \<Rightarrow> console_handler dumps self ev | Some h \<Rightarrow> h ev)"

text \<open>The methods of \<^verbatim>\<open>Logger\<close> that producers call.\<close>

definition info :: "('n \<Rightarrow> 'n \<Rightarrow> pyexn + string) \<Rightarrow> 'n Logger \<Rightarrow> string \<Rightarrow> hresult" where
  "info dumps self m = call_handler dumps self (Info m)"

definition debug :: "('n \<Rightarrow> 'n \<Rightarrow> pyexn + string) \<Rightarrow> 'n Logger \<Rightarrow> string \<Rightarrow> hresult" where
  "debug dumps self m = call_handler dumps self (Debug m)"

definition error :: "('n \<Rightarrow> 'n \<Rightarrow> pyexn + string) \<Rightarrow> 'n Logger \<Rightarrow> string \<Rightarrow> hresult" where
  "error dumps self m = call_handler dumps self (Error m)"

definition progress :: "('n \<Rightarrow> 'n \<Rightarrow> pyexn + string) \<Rightarrow> 'n Logger \<Rightarrow> int \<Rightarrow> int \<Rightarrow> hresult" where
  "progress dumps self done' total' = call_handler dumps self (Progress done' total')"

definition resources_info :: "('n \<Rightarrow> 'n \<Rightarrow> pyexn + string) \<Rightarrow> 'n Logger \<Rightarrow> string \<Rightarrow> hresult" where
  "resources_info dumps self m = call_handler dumps self (Resources_info m)"

definition run_info :: "('n \<Rightarrow> 'n \<Rightarrow> pyexn + string) \<Rightarrow> 'n Logger \<Rightarrow> string \<Rightarrow> hresult" where
  "run_info dumps self m = call_handler dumps self (Run_info m)"

definition job_info :: "('n \<Rightarrow> 'n \<Rightarrow> pyexn + string) \<Rightarrow> 'n Logger \<Rightarrow> job_msg \<Rightarrow> hresult" where
  "job_info dumps self m = call_handler dumps self (Job_info m)"

definition d3dag :: "('n \<Rightarrow> 'n \<Rightarrow> pyexn + string) \<Rightarrow> 'n Logger \<Rightarrow> 'n \<Rightarrow> 'n \<Rightarrow> hresult" where
  "d3dag dumps self nodes links = call_handler dumps self (D3dag nodes links)"

text \<open>
  \<^verbatim>\<open>setup_logger\<close> on the module's logger. \<open>platform_system\<close> is what
  \<^verbatim>\<open>platform.system()\<close> returns, \<open>sys_stdout\<close> and \<open>sys_stderr\<close> are the two streams.
\<close>

definition setup_logger ::
    "string \<Rightarrow> stream \<Rightarrow> stream \<Rightarrow> 'n Logger \<Rightarrow> ('n event \<Rightarrow> hresult) option \<Rightarrow> bool \<Rightarrow> bool \<Rightarrow> bool
       \<Rightarrow> bool \<Rightarrow> bool \<Rightarrow> bool \<Rightarrow> bool \<Rightarrow> 'n Logger" where
  "setup_logger platform_system sys_stdout sys_stderr logger handler_arg quiet_arg
       printshellcmds_arg printreason_arg nocolor_arg stdout debug_arg timestamp_arg =
     (let logger1 = (case handler_arg of None \<Rightarrow> logger | Some h \<Rightarrow> logger\<lparr>handler := Some h\<rparr>);
          sh = ColorizingStreamHandler_init platform_system nocolor_arg
                 (if stdout then sys_stdout else sys_stderr) timestamp_arg;
          logger2 = set_stream_handler logger1 sh;
          logger3 = set_level logger2 (if debug_arg then DEBUG else INFO)
      in logger3\<lparr>quiet := Some quiet_arg, printshellcmds := printshellcmds_arg,
                 printreason := printreason_arg\<rparr>)"

text \<open>
  The logging engine, as far as the logger uses it: a call is handed to the attached
  stream handler when its severity reaches the logger's level. An engine logger whose
  level was never set takes the root logger's, \<^verbatim>\<open>WARNING\<close>.
\<close>

definition isEnabledFor :: "'n Logger \<Rightarrow> loglevel \<Rightarrow> bool" where
  "isEnabledFor self lvl =
     (levelno (case level self of None \<Rightarrow> WARNING | Some l \<Rightarrow> l) \<le> levelno lvl)"

fun deliver ::
    "'n Logger \<Rightarrow> string \<Rightarrow> faults \<Rightarrow> log_call list \<Rightarrow> string \<Rightarrow> pyexn option \<times> string" where
  "deliver self asctime fl [] out = (None, out)"
| "deliver self asctime fl ((lvl, text) # calls) out =
     (case (if isEnabledFor self lvl then stream_handler self else None) of
        None \<Rightarrow> deliver self asctime fl calls out
      | Some sh \<Rightarrow>
          (let r = emit sh asctime fl \<lparr>levelname = getLevelName lvl, msg = text, message = []\<rparr> out
           in (case raised r of
                 Some e \<Rightarrow> (Some e, stream_out r)
               | None \<Rightarrow> deliver self asctime fl calls (stream_out r))))"

text \<open>
  One event through the logger: the handler's calls reach the stream in order; an
  exception of \<^verbatim>\<open>emit\<close> ends the handler at that call, an exception of the handler
  leaves after the calls made before it.
\<close>

definition log_event ::
    "('n \<Rightarrow> 'n \<Rightarrow> pyexn + string) \<Rightarrow> 'n Logger \<Rightarrow> string \<Rightarrow> faults \<Rightarrow> 'n event \<Rightarrow> string
       \<Rightarrow> pyexn option \<times> string" where
  "log_event dumps self asctime fl ev out =
     (case call_handler dumps self ev of
        (calls, exc) \<Rightarrow>
          (case deliver self asctime fl calls out of
             (Some e, out') \<Rightarrow> (Some e, out')
           | (None, out') \<Rightarrow> (exc, out')))"

text \<open>
  A serializer for descriptors that are lists of integers, to have a concrete instance of
  \<^verbatim>\<open>json.dumps\<close> at hand.
\<close>

definition dumps_ints :: "int list \<Rightarrow> int list \<Rightarrow> pyexn + string" where
  "dumps_ints nodes links =
     Inr (''{'' @ [CHR 0x22] @ ''nodes'' @ [CHR 0x22] @ '': ['' @ join_str '', '' (map str_int nodes)
          @ ''], '' @ [CHR 0x22] @ ''links'' @ [CHR 0x22] @ '': ['' @ join_str '', '' (map str_int links)
          @ '']}'')"

section \<open>Properties of the resource formatter\<close>

lemma join_str_nonempty_items:
  "\<forall>x \<in> set xs. x \<noteq> [] \<Longrightarrow> join_str sep xs = [] \<longleftrightarrow> xs = []"
  by (induction sep xs rule: join_str.induct) auto

lemma join_str_Cons:
  "join_str sep (x # ys) = (if ys = [] then x else x @ sep @ join_str sep ys)"
  by (cases ys) simp_all

lemma format_resources_empty_iff:
  "format_resources resources = [] \<longleftrightarrow>
     filter (\<lambda>(name, value). name \<notin> set omit_resources_default) resources = []"
proof -
  let ?kept = "filter (\<lambda>(name, value). name \<notin> set omit_resources_default) resources"
  let ?items = "map (\<lambda>(name, value). name @ ''='' @ py_str value) ?kept"
  have "\<forall>x \<in> set ?items. x \<noteq> []" by auto
  then have "join_str '', '' ?items = [] \<longleftrightarrow> ?items = []"
    by (rule join_str_nonempty_items)
  then show ?thesis
    by (simp add: format_resources_def format_resources_omit_def)
qed

text \<open>
  C6. For every mapping of resource names to values, \<open>format_resources\<close> returns the
  \<open>name=value\<close> pairs in insertion order, joined by a comma and a space, leaving out the
  keys \<open>_cores\<close> and \<open>_nodes\<close>: an empty mapping gives the empty string; a first pair
  with an excluded key is skipped; a first pair that is kept comes first in the result,
  alone when nothing is kept after it and otherwise followed by a comma, a space and the
  rendering of the pairs after it. The result is the empty string exactly when no key is
  left after the exclusion.
\<close>

theorem format_resources_spec:
  "format_resources [] = []
   \<and> format_resources ((name, value) # rest) =
       (if name = ''_cores'' \<or> name = ''_nodes'' then format_resources rest
        else if format_resources rest = [] then name @ ''='' @ py_str value
        else name @ ''='' @ py_str value @ '', '' @ format_resources rest)
   \<and> (format_resources resources = [] \<longleftrightarrow>
        (\<forall>nv \<in> set resources. fst nv = ''_cores'' \<or> fst nv = ''_nodes''))"
proof -
  let ?keep = "\<lambda>(name :: string, value :: pyval). name \<notin> set omit_resources_default"
  let ?item = "\<lambda>(name :: string, value :: pyval). name @ ''='' @ py_str value"
  have fr: "format_resources rs = join_str '', '' (map ?item (filter ?keep rs))" for rs
    by (simp only: format_resources_def format_resources_omit_def)
  have nil: "format_resources [] = []"
    by (simp add: fr)
  have cons: "format_resources ((name, value) # rest) =
       (if name = ''_cores'' \<or> name = ''_nodes'' then format_resources rest
        else if format_resources rest = [] then name @ ''='' @ py_str value
        else name @ ''='' @ py_str value @ '', '' @ format_resources rest)"
  proof (cases "name \<in> set omit_resources_default")
    case True
    then have "filter ?keep ((name, value) # rest) = filter ?keep rest" by simp
    then have "format_resources ((name, value) # rest) = format_resources rest"
      by (simp only: fr)
    moreover from True have "name = ''_cores'' \<or> name = ''_nodes''"
      by (simp add: omit_resources_default_def)
    ultimately show ?thesis by simp
  next
    case False
    then have "filter ?keep ((name, value) # rest) = (name, value) # filter ?keep rest" by simp
    then have "format_resources ((name, value) # rest)
        = join_str '', '' ((name @ ''='' @ py_str value) # map ?item (filter ?keep rest))"
      by (simp add: fr)
    also have "\<dots> = (if map ?item (filter ?keep rest) = [] then name @ ''='' @ py_str value
        else (name @ ''='' @ py_str value) @ '', '' @ join_str '', '' (map ?item (filter ?keep rest)))"
      by (rule join_str_Cons)
    also have "\<dots> = (if format_resources rest = [] then name @ ''='' @ py_str value
        else (name @ ''='' @ py_str value) @ '', '' @ format_resources rest)"
      using format_resources_empty_iff [of rest] by (simp only: fr map_is_Nil_conv)
    finally have "format_resources ((name, value) # rest)
        = (if format_resources rest = [] then name @ ''='' @ py_str value
           else (name @ ''='' @ py_str value) @ '', '' @ format_resources rest)" .
    moreover from False have "\<not> (name = ''_cores'' \<or> name = ''_nodes'')"
      by (simp add: omit_resources_default_def)
    ultimately show ?thesis by simp
  qed
  have "filter ?keep resources = [] \<longleftrightarrow>
      (\<forall>nv \<in> set resources. fst nv \<in> set omit_resources_default)"
    by (simp add: filter_empty_conv split_def)
  also have "\<dots> \<longleftrightarrow> (\<forall>nv \<in> set resources. fst nv = ''_cores'' \<or> fst nv = ''_nodes'')"
    by (simp add: omit_resources_default_def)
  finally have "filter ?keep resources = [] \<longleftrightarrow>
      (\<forall>nv \<in> set resources. fst nv = ''_cores'' \<or> fst nv = ''_nodes'')" .
  then have empty: "format_resources resources = [] \<longleftrightarrow>
      (\<forall>nv \<in> set resources. fst nv = ''_cores'' \<or> fst nv = ''_nodes'')"
    by (simp only: format_resources_empty_iff)
  show ?thesis by (rule conjI [OF nil conjI [OF cons empty]])
qed

lemma format_resources_three_kept:
  "format_resources [(''mem_mb'', PInt 100), (''disk_mb'', PInt 5), (''gpu'', PStr ''a100'')]
     = ''mem_mb=100, disk_mb=5, gpu=a100''"
  by (simp add: format_resources_def format_resources_omit_def omit_resources_default_def
      str_int_def str_nat.simps digit_char_def)

theorem format_resources_spec_witness:
  "format_resources [(''_cores'', PInt 4), (''mem_mb'', PInt 100), (''_nodes'', PInt 1)] = ''mem_mb=100''
   \<and> format_resources
        [(''_cores'', PInt 4), (''mem_mb'', PInt 100), (''disk_mb'', PInt 5), (''_nodes'', PInt 1),
         (''gpu'', PStr ''a100'')]
       = ''mem_mb=100, disk_mb=5, gpu=a100''
   \<and> format_resources [(''gpu'', PStr ''a100''), (''mem_mb'', PInt 100)] = ''gpu=a100, mem_mb=100''
   \<and> format_resources [(''_cores'', PInt 4), (''_nodes'', PInt 1)] = []"
proof -
  note c = format_resources_spec [THEN conjunct2, THEN conjunct1]
  note n = format_resources_spec [THEN conjunct1]
  have e: "format_resources [(''_cores'', PInt 4), (''_nodes'', PInt 1)] = []"
    using format_resources_spec [of "''x''" PNone "[]" "[(''_cores'', PInt 4), (''_nodes'', PInt 1)]"]
    by simp
  have g: "format_resources [(''gpu'', PStr ''a100'')] = ''gpu=a100''"
    by (simp add: c n)
  have m: "format_resources [(''mem_mb'', PInt 100)] = ''mem_mb=100''"
    by (simp add: c n str_int_def str_nat.simps digit_char_def)
  have a: "format_resources [(''_cores'', PInt 4), (''mem_mb'', PInt 100), (''_nodes'', PInt 1)]
      = ''mem_mb=100''"
    by (simp add: c n str_int_def str_nat.simps digit_char_def)
  have b: "format_resources
        [(''_cores'', PInt 4), (''mem_mb'', PInt 100), (''disk_mb'', PInt 5), (''_nodes'', PInt 1),
         (''gpu'', PStr ''a100'')]
       = ''mem_mb=100, disk_mb=5, gpu=a100''"
    by (simp add: c n str_int_def str_nat.simps digit_char_def)
  have d: "format_resources [(''gpu'', PStr ''a100''), (''mem_mb'', PInt 100)]
      = ''gpu=a100, mem_mb=100''"
    by (simp add: c n str_int_def str_nat.simps digit_char_def)
  show ?thesis by (rule conjI [OF a conjI [OF b conjI [OF d e]]])
qed

section \<open>Properties of the default console handler\<close>

text \<open>
  C4, as stated, fails: an \<open>info\<close> event is not passed to the engine at severity
  \<open>INFO\<close>.
\<close>

theorem info_severity_counterexample:
  "console_handler dumps_ints Logger_init (Info ''Nothing to be done.'')
     \<noteq> ([(INFO, ''Nothing to be done.'')], None)"
  by (simp add: console_handler_def)

text \<open>
  C4, amended. For every \<open>info\<close>, \<open>resources_info\<close> and \<open>run_info\<close> event, whatever
  the configuration of the logger, the default console handler passes the message to the
  engine once, at severity \<open>WARNING\<close>; that severity is enabled under both levels
  \<open>setup_logger\<close> can set, so the message is visible under the default threshold.
\<close>

theorem info_events_rendered_at_warning:
  "console_handler dumps self (Info m) = ([(WARNING, m)], None)
   \<and> console_handler dumps self (Resources_info m) = ([(WARNING, m)], None)
   \<and> console_handler dumps self (Run_info m) = ([(WARNING, m)], None)
   \<and> isEnabledFor
        (setup_logger platform_system sys_stdout sys_stderr logger handler_arg quiet_arg
           printshellcmds_arg printreason_arg nocolor_arg stdout debug_arg timestamp_arg)
        WARNING"
  by (simp add: console_handler_def isEnabledFor_def setup_logger_def set_level_def
      set_stream_handler_def Let_def split: option.splits)

text \<open>
  C8. For every \<open>d3dag\<close> event, the default console handler makes no call to the
  logging engine: the serialization is computed and dropped (the handler ends with the
  exception of the serializer when it raises one), and the text on the output stream is
  what it was before the event.
\<close>

theorem d3dag_no_output:
  "fst (console_handler dumps self (D3dag nodes links)) = []
   \<and> snd (console_handler dumps self (D3dag nodes links))
       = (case dumps nodes links of Inl e \<Rightarrow> Some e | Inr text \<Rightarrow> None)
   \<and> snd (log_event dumps (self\<lparr>handler := None\<rparr>) asctime fl (D3dag nodes links) out) = out"
  by (simp add: console_handler_def log_event_def call_handler_def split: sum.splits)

text \<open>
  C2. For every \<open>job_info\<close> event, when \<open>quiet\<close> is set neither the structured summary
  nor the \<open>msg\<close> override is passed to the engine, and the shell command is passed at
  severity \<open>INFO\<close> exactly when \<open>printshellcmds\<close> is enabled and the command is
  non-empty; for every \<open>progress\<close> event, \<open>quiet\<close> leaves no call at all.
\<close>

theorem quiet_suppresses_summary_and_progress:
  "quiet self = Some True \<Longrightarrow>
     console_handler dumps self (Job_info m)
       = (if printshellcmds self \<and> truthy (msg_shellcmd m)
          then [(INFO, py_str (msg_shellcmd m))] else [], None)
     \<and> console_handler dumps self (Progress done' total') = ([], None)"
  by (simp add: console_handler_def)

theorem quiet_suppresses_summary_and_progress_witness:
  "quiet (Logger_init\<lparr>quiet := Some True, printshellcmds := True\<rparr> :: int list Logger) = Some True
   \<and> console_handler dumps_ints (Logger_init\<lparr>quiet := Some True, printshellcmds := True\<rparr>)
        (Job_info \<lparr>msg_name = ''sort'', msg_local = False, msg_input = [''a.txt''],
           msg_output = [''b.txt''], msg_log = PNone, msg_reason = PNone, msg_priority = PInt 0,
           msg_threads = PInt 1, msg_resources = [], msg_shellcmd = PStr ''sort a.txt > b.txt'',
           msg_msg = PStr ''Sorting''\<rparr>)
       = ([(INFO, ''sort a.txt > b.txt'')], None)
   \<and> console_handler dumps_ints (Logger_init\<lparr>quiet := Some True, printshellcmds := True\<rparr>)
        (Progress 3 10) = ([], None)"
  using quiet_suppresses_summary_and_progress
    [of "Logger_init\<lparr>quiet := Some True, printshellcmds := True\<rparr>" dumps_ints
      "\<lparr>msg_name = ''sort'', msg_local = False, msg_input = [''a.txt''],
           msg_output = [''b.txt''], msg_log = PNone, msg_reason = PNone, msg_priority = PInt 0,
           msg_threads = PInt 1, msg_resources = [], msg_shellcmd = PStr ''sort a.txt > b.txt'',
           msg_msg = PStr ''Sorting''\<rparr>" 3 10]
  by (simp add: Logger_init_def)

text \<open>
  C10. The constructor leaves the attribute \<open>quiet\<close> unset, and so do
  \<open>set_stream_handler\<close> and \<open>set_level\<close>; \<open>setup_logger\<close> sets it. On a freshly
  constructed logger \<open>progress\<close> and \<open>job_info\<close> end with \<open>AttributeError\<close> before any
  call to the engine, whatever their arguments, while \<open>info\<close>, \<open>debug\<close>, \<open>error\<close>,
  \<open>resources_info\<close> and \<open>run_info\<close> end without an exception.
\<close>

theorem fresh_logger_quiet_unset:
  "quiet Logger_init = None
   \<and> quiet (set_stream_handler self sh) = quiet self
   \<and> quiet (set_level self lvl) = quiet self
   \<and> quiet (setup_logger platform_system sys_stdout sys_stderr logger handler_arg quiet_arg
        printshellcmds_arg printreason_arg nocolor_arg stdout debug_arg timestamp_arg)
       = Some quiet_arg
   \<and> progress dumps Logger_init done' total' = ([], Some AttributeError)
   \<and> job_info dumps Logger_init m = ([], Some AttributeError)
   \<and> snd (info dumps Logger_init s) = None
   \<and> snd (debug dumps Logger_init s) = None
   \<and> snd (error dumps Logger_init s) = None
   \<and> snd (resources_info dumps Logger_init s) = None
   \<and> snd (run_info dumps Logger_init s) = None"
  by (simp add: Logger_init_def set_stream_handler_def set_level_def setup_logger_def Let_def
      progress_def job_info_def info_def debug_def error_def resources_info_def run_info_def
      call_handler_def console_handler_def split: option.splits)

section \<open>Properties of the colorizing stream handler\<close>

lemma emit_try_first_fault:
  "fst (emit_try self asctime fl record out) =
     (case on_format fl of Some e \<Rightarrow> Some e | None \<Rightarrow>
        (case on_write fl of Some e \<Rightarrow> Some e | None \<Rightarrow>
           (case on_write_terminator fl of Some e \<Rightarrow> Some e | None \<Rightarrow> on_flush fl)))"
  by (simp add: emit_try_def Let_def split: option.splits)

lemma emit_no_fault:
  "emit self asctime no_faults record out =
     \<lparr>raised = None, handleError_called = False,
      stream_out = out @ decorate self asctime (format_record record) @ terminator self\<rparr>"
  by (simp add: emit_def emit_try_def no_faults_def)

text \<open>
  C3, as stated, fails: an exception that is neither a \<open>BrokenPipeError\<close>, a
  \<open>KeyboardInterrupt\<close> nor a \<open>SystemExit\<close> can leave \<open>emit\<close>. \<open>GeneratorExit\<close> is
  not an instance of \<open>Exception\<close>, so no clause catches it.
\<close>

theorem emit_other_exception_counterexample:
  "raised (emit \<lparr>nocolor = True, timestamp = False, terminator = [CHR 0x0A]\<rparr> []
      (no_faults\<lparr>on_write := Some GeneratorExit\<rparr>)
      \<lparr>levelname = ''INFO'', msg = ''done'', message = []\<rparr> []) = Some GeneratorExit
   \<and> \<not> handleError_called (emit \<lparr>nocolor = True, timestamp = False, terminator = [CHR 0x0A]\<rparr> []
      (no_faults\<lparr>on_write := Some GeneratorExit\<rparr>)
      \<lparr>levelname = ''INFO'', msg = ''done'', message = []\<rparr> [])"
  by (simp add: emit_def emit_try_def no_faults_def)

text \<open>
  C3, amended. For every record, when a step of \<open>emit\<close> (formatting, writing the text,
  writing the terminator, flushing) raises, the first exception \<open>e\<close> raised decides the
  outcome: a \<open>BrokenPipeError\<close> leaves \<open>emit\<close>; a \<open>KeyboardInterrupt\<close> or
  \<open>SystemExit\<close> is swallowed and \<open>handleError\<close> is not called; any other instance of
  \<open>Exception\<close> is handed to \<open>handleError\<close> and does not leave \<open>emit\<close>; an exception
  that is not an instance of \<open>Exception\<close>, other than \<open>KeyboardInterrupt\<close> and
  \<open>SystemExit\<close>, leaves \<open>emit\<close> and \<open>handleError\<close> is not called.
\<close>

theorem emit_failure_policy:
  assumes "on_format fl = Some e
     \<or> (on_format fl = None \<and> on_write fl = Some e)
     \<or> (on_format fl = None \<and> on_write fl = None \<and> on_write_terminator fl = Some e)
     \<or> (on_format fl = None \<and> on_write fl = None \<and> on_write_terminator fl = None
          \<and> on_flush fl = Some e)"
  shows "(e = BrokenPipeError \<longrightarrow>
            raised (emit self asctime fl record out) = Some BrokenPipeError)
       \<and> (e = KeyboardInterrupt \<or> e = SystemExit \<longrightarrow>
            raised (emit self asctime fl record out) = None
            \<and> \<not> handleError_called (emit self asctime fl record out))
       \<and> (e \<noteq> BrokenPipeError \<and> is_Exception e \<longrightarrow>
            raised (emit self asctime fl record out) = None
            \<and> handleError_called (emit self asctime fl record out))
       \<and> (\<not> is_Exception e \<and> e \<noteq> KeyboardInterrupt \<and> e \<noteq> SystemExit \<longrightarrow>
            raised (emit self asctime fl record out) = Some e
            \<and> \<not> handleError_called (emit self asctime fl record out))"
proof -
  from assms have "fst (emit_try self asctime fl record out) = Some e"
    unfolding emit_try_first_fault by auto
  then obtain out' where "emit_try self asctime fl record out = (Some e, out')"
    by (cases "emit_try self asctime fl record out") simp
  then show ?thesis
    by (auto simp: emit_def)
qed

theorem emit_failure_policy_witness:
  "raised (emit \<lparr>nocolor = True, timestamp = False, terminator = [CHR 0x0A]\<rparr> []
      (no_faults\<lparr>on_flush := Some BrokenPipeError\<rparr>)
      \<lparr>levelname = ''INFO'', msg = ''done'', message = []\<rparr> []) = Some BrokenPipeError
   \<and> raised (emit \<lparr>nocolor = True, timestamp = False, terminator = [CHR 0x0A]\<rparr> []
      (no_faults\<lparr>on_write := Some KeyboardInterrupt\<rparr>)
      \<lparr>levelname = ''INFO'', msg = ''done'', message = []\<rparr> []) = None
   \<and> \<not> handleError_called (emit \<lparr>nocolor = True, timestamp = False, terminator = [CHR 0x0A]\<rparr> []
      (no_faults\<lparr>on_write := Some KeyboardInterrupt\<rparr>)
      \<lparr>levelname = ''INFO'', msg = ''done'', message = []\<rparr> [])
   \<and> raised (emit \<lparr>nocolor = True, timestamp = False, terminator = [CHR 0x0A]\<rparr> []
      (no_faults\<lparr>on_format := Some (OtherException ''UnicodeEncodeError'')\<rparr>)
      \<lparr>levelname = ''INFO'', msg = ''done'', message = []\<rparr> []) = None
   \<and> handleError_called (emit \<lparr>nocolor = True, timestamp = False, terminator = [CHR 0x0A]\<rparr> []
      (no_faults\<lparr>on_format := Some (OtherException ''UnicodeEncodeError'')\<rparr>)
      \<lparr>levelname = ''INFO'', msg = ''done'', message = []\<rparr> [])
   \<and> raised (emit \<lparr>nocolor = True, timestamp = False, terminator = [CHR 0x0A]\<rparr> []
      (no_faults\<lparr>on_write_terminator := Some GeneratorExit\<rparr>)
      \<lparr>levelname = ''INFO'', msg = ''done'', message = []\<rparr> []) = Some GeneratorExit"
  using
    emit_failure_policy [of "no_faults\<lparr>on_flush := Some BrokenPipeError\<rparr>" BrokenPipeError
      "\<lparr>nocolor = True, timestamp = False, terminator = [CHR 0x0A]\<rparr>" "[]"
      "\<lparr>levelname = ''INFO'', msg = ''done'', message = []\<rparr>" "[]"]
    emit_failure_policy [of "no_faults\<lparr>on_write := Some KeyboardInterrupt\<rparr>" KeyboardInterrupt
      "\<lparr>nocolor = True, timestamp = False, terminator = [CHR 0x0A]\<rparr>" "[]"
      "\<lparr>levelname = ''INFO'', msg = ''done'', message = []\<rparr>" "[]"]
    emit_failure_policy [of "no_faults\<lparr>on_format := Some (OtherException ''UnicodeEncodeError'')\<rparr>"
      "OtherException ''UnicodeEncodeError''"
      "\<lparr>nocolor = True, timestamp = False, terminator = [CHR 0x0A]\<rparr>" "[]"
      "\<lparr>levelname = ''INFO'', msg = ''done'', message = []\<rparr>" "[]"]
    emit_failure_policy [of "no_faults\<lparr>on_write_terminator := Some GeneratorExit\<rparr>" GeneratorExit
      "\<lparr>nocolor = True, timestamp = False, terminator = [CHR 0x0A]\<rparr>" "[]"
      "\<lparr>levelname = ''INFO'', msg = ''done'', message = []\<rparr>" "[]"]
  by (simp add: no_faults_def)

lemma map_of_colors_cases:
  "map_of colors name =
     (if name = ''WARNING'' then Some 3 else if name = ''INFO'' then Some 2
      else if name = ''DEBUG'' then Some 4 else if name = ''CRITICAL'' then Some 1
      else if name = ''ERROR'' then Some 1 else None)"
  by (simp add: colors_def RED_def GREEN_def YELLOW_def BLUE_def)

text \<open>
  C7. The handler's \<open>nocolor\<close> is set exactly when the \<open>nocolor\<close> argument is set, or
  the stream is not an interactive terminal (it has no \<open>isatty\<close> or \<open>isatty()\<close> is
  false), or the platform is Windows. When \<open>nocolor\<close> is not set and the record's level
  name is in the color table, the decorated text is the escape sequence
  \<open>ESC [ {30 + color} m\<close>, the timestamp prefix if enabled, the message, and the reset
  sequence \<open>ESC [ 0 m\<close>; otherwise it is the timestamp prefix if enabled and the message.
\<close>

theorem color_decision_and_decoration:
  "nocolor (ColorizingStreamHandler_init platform_system nocolor_arg s timestamp_arg)
     = (nocolor_arg \<or> isatty s \<noteq> Some True \<or> platform_system = ''Windows'')
   \<and> decorate self asctime record =
       (if \<not> nocolor self
           \<and> levelname record \<in> {''WARNING'', ''INFO'', ''DEBUG'', ''CRITICAL'', ''ERROR''}
        then CHR 0x1B # ''['' @ str_int (30 + the (map_of colors (levelname record))) @ ''m''
             @ (if timestamp self then ''['' @ asctime @ ''] '' else [])
             @ message record @ CHR 0x1B # ''[0m''
        else (if timestamp self then ''['' @ asctime @ ''] '' else []) @ message record)"
proof -
  have a: "nocolor (ColorizingStreamHandler_init platform_system nocolor_arg s timestamp_arg)
     = (nocolor_arg \<or> isatty s \<noteq> Some True \<or> platform_system = ''Windows'')"
    by (auto simp: ColorizingStreamHandler_init_def is_tty_def split: option.splits)
  have b: "decorate self asctime record =
       (if \<not> nocolor self
           \<and> levelname record \<in> {''WARNING'', ''INFO'', ''DEBUG'', ''CRITICAL'', ''ERROR''}
        then CHR 0x1B # ''['' @ str_int (30 + the (map_of colors (levelname record))) @ ''m''
             @ (if timestamp self then ''['' @ asctime @ ''] '' else [])
             @ message record @ CHR 0x1B # ''[0m''
        else (if timestamp self then ''['' @ asctime @ ''] '' else []) @ message record)"
    unfolding decorate_def map_of_colors_cases
    by (simp add: Let_def COLOR_SEQ_def RESET_SEQ_def)
  from a b show ?thesis by blast
qed

theorem color_decision_and_decoration_witness:
  "\<not> nocolor (ColorizingStreamHandler_init ''Linux'' False \<lparr>isatty = Some True, written = []\<rparr> True)
   \<and> decorate (ColorizingStreamHandler_init ''Linux'' False \<lparr>isatty = Some True, written = []\<rparr> True)
        ''Mon Jan  6 10:00:00 2014''
        \<lparr>levelname = ''INFO'', msg = ''rule a:'', message = ''rule a:''\<rparr>
       = CHR 0x1B # ''[32m[Mon Jan  6 10:00:00 2014] rule a:'' @ CHR 0x1B # ''[0m''
   \<and> nocolor (ColorizingStreamHandler_init ''Linux'' False \<lparr>isatty = None, written = []\<rparr> False)
   \<and> decorate (ColorizingStreamHandler_init ''Linux'' False \<lparr>isatty = None, written = []\<rparr> False)
        ''Mon Jan  6 10:00:00 2014''
        \<lparr>levelname = ''INFO'', msg = ''rule a:'', message = ''rule a:''\<rparr>
       = ''rule a:''"
  using
    color_decision_and_decoration [of "''Linux''" False "\<lparr>isatty = Some True, written = []\<rparr>" True
      "ColorizingStreamHandler_init ''Linux'' False \<lparr>isatty = Some True, written = []\<rparr> True"
      "''Mon Jan  6 10:00:00 2014''"
      "\<lparr>levelname = ''INFO'', msg = ''rule a:'', message = ''rule a:''\<rparr>"]
    color_decision_and_decoration [of "''Linux''" False "\<lparr>isatty = None, written = []\<rparr>" False
      "ColorizingStreamHandler_init ''Linux'' False \<lparr>isatty = None, written = []\<rparr> False"
      "''Mon Jan  6 10:00:00 2014''"
      "\<lparr>levelname = ''INFO'', msg = ''rule a:'', message = ''rule a:''\<rparr>"]
  by (simp add: ColorizingStreamHandler_init_def is_tty_def map_of_colors_cases str_int_def
      str_nat.simps digit_char_def)

lemma decorate_examples:
  "decorate \<lparr>nocolor = False, timestamp = True, terminator = [CHR 0x0A]\<rparr>
      ''Mon Jan  6 10:00:00 2014'' \<lparr>levelname = ''INFO'', msg = ''rule a:'', message = ''rule a:''\<rparr>
     = CHR 0x1B # ''[32m[Mon Jan  6 10:00:00 2014] rule a:'' @ CHR 0x1B # ''[0m''"
  "decorate \<lparr>nocolor = False, timestamp = False, terminator = [CHR 0x0A]\<rparr>
      [] \<lparr>levelname = ''ERROR'', msg = ''failed'', message = ''failed''\<rparr>
     = CHR 0x1B # ''[31mfailed'' @ CHR 0x1B # ''[0m''"
  "decorate \<lparr>nocolor = True, timestamp = False, terminator = [CHR 0x0A]\<rparr>
      [] \<lparr>levelname = ''ERROR'', msg = ''failed'', message = ''failed''\<rparr> = ''failed''"
  by (simp_all add: decorate_def map_of_colors_cases COLOR_SEQ_def RESET_SEQ_def str_int_def
      str_nat.simps digit_char_def)

section \<open>Properties of the job summary\<close>

lemma job_info_lines_unfold:
  "job_info_lines self m =
     [(if msg_local m then ''local'' else '''') @ ''rule '' @ msg_name m @ '':'']
     @ (if msg_input m \<noteq> [] then [CHR 0x09 # ''input: '' @ join_str '', '' (msg_input m)] else [])
     @ (if msg_output m \<noteq> [] then [CHR 0x09 # ''output: '' @ join_str '', '' (msg_output m)] else [])
     @ (if msg_log m \<noteq> PNone then [CHR 0x09 # ''log: '' @ py_str (msg_log m)] else [])
     @ (if printreason self \<and> msg_reason m \<noteq> PNone
        then [CHR 0x09 # ''reason: '' @ py_str (msg_reason m)] else [])
     @ (if msg_priority m \<noteq> PInt 0
        then [CHR 0x09 # ''priority: '' @ py_str (msg_priority m)] else [])
     @ (if msg_threads m \<noteq> PInt 1
        then [CHR 0x09 # ''threads: '' @ py_str (msg_threads m)] else [])
     @ (if format_resources (msg_resources m) \<noteq> []
        then [CHR 0x09 # ''resources: '' @ format_resources (msg_resources m)] else [])"
  by (simp add: job_info_lines_def format_item_def Let_def)

text \<open>
  C5. For every \<open>job_info\<close> event rendered as a structured summary (not quiet, no
  \<open>msg\<close> override), the text passed to the engine is the lines of the summary joined by
  newlines, and among these lines: a line starting with tab and \<open>priority: \<close> is there
  exactly when \<open>priority\<close> is not 0, and then it is \<open>priority: {value}\<close>; a line
  starting with tab and \<open>threads: \<close> is there exactly when \<open>threads\<close> is not 1, and
  then it is \<open>threads: {value}\<close>; a line starting with tab and \<open>reason: \<close> is there
  exactly when \<open>printreason\<close> is enabled and \<open>reason\<close> is not \<open>None\<close>.
\<close>

theorem job_info_optional_lines:
  "(quiet self = Some False \<and> msg_msg m = PNone \<longrightarrow>
      hd (fst (console_handler dumps self (Job_info m)))
        = (INFO, join_str [CHR 0x0A] (job_info_lines self m)))
   \<and> ((\<exists>l \<in> set (job_info_lines self m). prefix (CHR 0x09 # ''priority: '') l)
        \<longleftrightarrow> msg_priority m \<noteq> PInt 0)
   \<and> ((CHR 0x09 # ''priority: '' @ py_str (msg_priority m)) \<in> set (job_info_lines self m)
        \<longleftrightarrow> msg_priority m \<noteq> PInt 0)
   \<and> ((\<exists>l \<in> set (job_info_lines self m). prefix (CHR 0x09 # ''threads: '') l)
        \<longleftrightarrow> msg_threads m \<noteq> PInt 1)
   \<and> ((CHR 0x09 # ''threads: '' @ py_str (msg_threads m)) \<in> set (job_info_lines self m)
        \<longleftrightarrow> msg_threads m \<noteq> PInt 1)
   \<and> ((\<exists>l \<in> set (job_info_lines self m). prefix (CHR 0x09 # ''reason: '') l)
        \<longleftrightarrow> printreason self \<and> msg_reason m \<noteq> PNone)
   \<and> ((CHR 0x09 # ''reason: '' @ py_str (msg_reason m)) \<in> set (job_info_lines self m)
        \<longleftrightarrow> printreason self \<and> msg_reason m \<noteq> PNone)"
proof -
  have call: "quiet self = Some False \<and> msg_msg m = PNone \<longrightarrow>
      hd (fst (console_handler dumps self (Job_info m)))
        = (INFO, join_str [CHR 0x0A] (job_info_lines self m))"
    by (simp add: console_handler_def Let_def)
  have p1: "(\<exists>l \<in> set (job_info_lines self m). prefix (CHR 0x09 # ''priority: '') l)
        \<longleftrightarrow> msg_priority m \<noteq> PInt 0"
    unfolding job_info_lines_unfold by auto
  have p2: "(CHR 0x09 # ''priority: '' @ py_str (msg_priority m)) \<in> set (job_info_lines self m)
        \<longleftrightarrow> msg_priority m \<noteq> PInt 0"
    unfolding job_info_lines_unfold by auto
  have t1: "(\<exists>l \<in> set (job_info_lines self m). prefix (CHR 0x09 # ''threads: '') l)
        \<longleftrightarrow> msg_threads m \<noteq> PInt 1"
    unfolding job_info_lines_unfold by auto
  have t2: "(CHR 0x09 # ''threads: '' @ py_str (msg_threads m)) \<in> set (job_info_lines self m)
        \<longleftrightarrow> msg_threads m \<noteq> PInt 1"
    unfolding job_info_lines_unfold by auto
  have r1: "(\<exists>l \<in> set (job_info_lines self m). prefix (CHR 0x09 # ''reason: '') l)
        \<longleftrightarrow> printreason self \<and> msg_reason m \<noteq> PNone"
    unfolding job_info_lines_unfold by auto
  have r2: "(CHR 0x09 # ''reason: '' @ py_str (msg_reason m)) \<in> set (job_info_lines self m)
        \<longleftrightarrow> printreason self \<and> msg_reason m \<noteq> PNone"
    unfolding job_info_lines_unfold by auto
  from call p1 p2 t1 t2 r1 r2 show ?thesis by blast
qed

theorem job_info_optional_lines_witness:
  "hd (fst (console_handler dumps_ints (Logger_init\<lparr>quiet := Some False, printreason := True\<rparr>)
       (Job_info \<lparr>msg_name = ''sort'', msg_local = True, msg_input = [''a.txt'', ''c.txt''],
          msg_output = [''b.txt''], msg_log = PNone, msg_reason = PStr ''Missing output files: b.txt'',
          msg_priority = PInt 5, msg_threads = PInt 4,
          msg_resources = [(''_cores'', PInt 4), (''mem_mb'', PInt 100)],
          msg_shellcmd = PNone, msg_msg = PNone\<rparr>)))
     = (INFO, ''localrule sort:'' @ [CHR 0x0A, CHR 0x09] @ ''input: a.txt, c.txt''
          @ [CHR 0x0A, CHR 0x09] @ ''output: b.txt''
          @ [CHR 0x0A, CHR 0x09] @ ''reason: Missing output files: b.txt''
          @ [CHR 0x0A, CHR 0x09] @ ''priority: 5''
          @ [CHR 0x0A, CHR 0x09] @ ''threads: 4''
          @ [CHR 0x0A, CHR 0x09] @ ''resources: mem_mb=100'')
   \<and> \<not> (\<exists>l \<in> set (job_info_lines (Logger_init\<lparr>quiet := Some False\<rparr> :: int list Logger)
       \<lparr>msg_name = ''sort'', msg_local = False, msg_input = [], msg_output = [],
          msg_log = PNone, msg_reason = PStr ''Missing output files: b.txt'',
          msg_priority = PInt 0, msg_threads = PInt 1, msg_resources = [],
          msg_shellcmd = PNone, msg_msg = PNone\<rparr>).
        prefix (CHR 0x09 # ''priority: '') l \<or> prefix (CHR 0x09 # ''threads: '') l
        \<or> prefix (CHR 0x09 # ''reason: '') l)"
  using
    job_info_optional_lines [of "Logger_init\<lparr>quiet := Some False, printreason := True\<rparr>"
      "\<lparr>msg_name = ''sort'', msg_local = True, msg_input = [''a.txt'', ''c.txt''],
          msg_output = [''b.txt''], msg_log = PNone, msg_reason = PStr ''Missing output files: b.txt'',
          msg_priority = PInt 5, msg_threads = PInt 4,
          msg_resources = [(''_cores'', PInt 4), (''mem_mb'', PInt 100)],
          msg_shellcmd = PNone, msg_msg = PNone\<rparr>" dumps_ints]
    job_info_optional_lines [of "Logger_init\<lparr>quiet := Some False\<rparr> :: int list Logger"
      "\<lparr>msg_name = ''sort'', msg_local = False, msg_input = [], msg_output = [],
          msg_log = PNone, msg_reason = PStr ''Missing output files: b.txt'',
          msg_priority = PInt 0, msg_threads = PInt 1, msg_resources = [],
          msg_shellcmd = PNone, msg_msg = PNone\<rparr>" dumps_ints]
  by (simp add: Logger_init_def job_info_lines_unfold format_resources_def
      format_resources_omit_def omit_resources_default_def str_int_def str_nat.simps
      digit_char_def)

section \<open>Properties of the progress percentage\<close>

lemma pow2_powi: "pow2 n = 2 powi n"
  by (simp add: pow2_def power_int_def inverse_eq_divide power_one_over divide_simps)

lemma pow2_pos [simp]: "0 < pow2 n"
  by (simp add: pow2_powi)

lemma pow2_add: "pow2 (a + b) = pow2 a * pow2 b"
  by (simp add: pow2_powi power_int_add)

lemma pow2_mono: "a \<le> b \<Longrightarrow> pow2 a \<le> pow2 b"
  by (simp add: pow2_powi power_int_increasing)

lemma pow2_nat: "pow2 (int n) = 2 ^ n"
  by (simp add: pow2_def)

lemma bitlen_bounds: "0 < n \<Longrightarrow> 2 ^ (bitlen n - 1) \<le> n \<and> n < 2 ^ bitlen n"
proof (induction n rule: bitlen.induct)
  case (1 n)
  show ?case
  proof (cases "n div 2 = 0")
    case True
    with 1(2) have "n = 1" by (cases n) auto
    then show ?thesis by (simp add: bitlen.simps)
  next
    case False
    then have pos: "0 < n div 2" by simp
    from 1(1)[OF _ pos] 1(2)
    have ih: "2 ^ (bitlen (n div 2) - 1) \<le> n div 2" "n div 2 < 2 ^ bitlen (n div 2)"
      by auto
    have bl: "bitlen n = Suc (bitlen (n div 2))"
      using 1(2) by (subst bitlen.simps) simp
    have blpos: "0 < bitlen (n div 2)"
      using pos by (subst bitlen.simps) simp
    then obtain k where k: "bitlen (n div 2) = Suc k" by (cases "bitlen (n div 2)") auto
    from ih k have "2 * 2 ^ k \<le> 2 * (n div 2)" by simp
    also have "\<dots> \<le> n" by simp
    finally have lo: "2 ^ (bitlen n - 1) \<le> n" by (simp add: bl k)
    from ih(2) have "n div 2 + 1 \<le> 2 ^ bitlen (n div 2)" by simp
    then have "2 * (n div 2) + 2 \<le> 2 * 2 ^ bitlen (n div 2)" by simp
    moreover have "n < 2 * (n div 2) + 2" by presburger
    ultimately have hi: "n < 2 ^ bitlen n" by (simp add: bl)
    from lo hi show ?thesis by simp
  qed
qed

lemma round_half_even_error: "\<bar>of_int (round_half_even x) - x\<bar> \<le> 1 / 2"
proof -
  have "of_int \<lfloor>x\<rfloor> \<le> x" "x < of_int \<lfloor>x\<rfloor> + 1" by linarith+
  then show ?thesis
    by (auto simp: round_half_even_def Let_def)
qed

lemma round_half_even_nonneg: "0 \<le> x \<Longrightarrow> 0 \<le> round_half_even x"
  by (auto simp: round_half_even_def Let_def)


lemma ilog2_bounds:
  assumes "0 < x"
  shows "pow2 (ilog2 x) \<le> x \<and> x < pow2 (ilog2 x + 1)"
proof -
  obtain p q where pq: "quotient_of x = (p, q)" by (cases "quotient_of x")
  then have q: "0 < q" and x: "x = of_int p / of_int q"
    by (simp_all add: quotient_of_denom_pos quotient_of_div)
  from assms q x have p: "0 < p"
    by (simp add: zero_less_divide_iff)
  define a where "a = bitlen (nat p)"
  define b where "b = bitlen (nat q)"
  define d where "d = int a - int b"
  from bitlen_bounds [of "nat p"] p
  have pa: "2 ^ (a - 1) \<le> nat p" "nat p < 2 ^ a" by (simp_all add: a_def)
  from bitlen_bounds [of "nat q"] q
  have qb: "2 ^ (b - 1) \<le> nat q" "nat q < 2 ^ b" by (simp_all add: b_def)
  from pa(2) p have a0: "0 < a" by (cases a) auto
  from qb(2) q have b0: "0 < b" by (cases b) auto
  have rp_lo: "pow2 (int a - 1) \<le> of_int p"
  proof -
    have "pow2 (int a - 1) = 2 ^ (a - 1)"
      using a0 pow2_nat [of "a - 1"] by (simp add: of_nat_diff)
    also have "\<dots> = of_nat (2 ^ (a - 1))" by simp
    also have "\<dots> \<le> of_nat (nat p)" using pa(1) by (simp only: of_nat_le_iff)
    also have "\<dots> = of_int p" using p by simp
    finally show ?thesis .
  qed
  have rp_hi: "of_int p < pow2 (int a)"
  proof -
    have "of_int p = (of_nat (nat p) :: rat)" using p by simp
    also have "\<dots> < of_nat (2 ^ a)" using pa(2) by (simp only: of_nat_less_iff)
    also have "\<dots> = pow2 (int a)" by (simp add: pow2_nat)
    finally show ?thesis .
  qed
  have rq_lo: "pow2 (int b - 1) \<le> of_int q"
  proof -
    have "pow2 (int b - 1) = 2 ^ (b - 1)"
      using b0 pow2_nat [of "b - 1"] by (simp add: of_nat_diff)
    also have "\<dots> = of_nat (2 ^ (b - 1))" by simp
    also have "\<dots> \<le> of_nat (nat q)" using qb(1) by (simp only: of_nat_le_iff)
    also have "\<dots> = of_int q" using q by simp
    finally show ?thesis .
  qed
  have rq_hi: "of_int q < pow2 (int b)"
  proof -
    have "of_int q = (of_nat (nat q) :: rat)" using q by simp
    also have "\<dots> < of_nat (2 ^ b)" using qb(2) by (simp only: of_nat_less_iff)
    also have "\<dots> = pow2 (int b)" by (simp add: pow2_nat)
    finally show ?thesis .
  qed
  have qpos: "(0::rat) < of_int q" using q by simp
  have upper: "x < pow2 (d + 1)"
  proof -
    have "of_int p < pow2 (int a)" by (rule rp_hi)
    also have "pow2 (int a) = pow2 (d + 1) * pow2 (int b - 1)"
      by (simp add: d_def pow2_add [symmetric])
    also have "\<dots> \<le> pow2 (d + 1) * of_int q"
      using rq_lo by (simp add: mult_left_mono less_imp_le)
    finally show ?thesis using qpos by (simp add: x pos_divide_less_eq)
  qed
  have lower: "pow2 (d - 1) < x"
  proof -
    have "pow2 (d - 1) * of_int q < pow2 (d - 1) * pow2 (int b)"
      using rq_hi by (simp add: mult_strict_left_mono)
    also have "\<dots> = pow2 (int a - 1)"
      by (simp add: d_def pow2_add [symmetric])
    also have "\<dots> \<le> of_int p" by (rule rp_lo)
    finally show ?thesis using qpos by (simp add: x pos_less_divide_eq)
  qed
  have il: "ilog2 x = (if pow2 d \<le> x then d else d - 1)"
    by (simp add: ilog2_def pq a_def b_def d_def Let_def)
  show ?thesis
  proof (cases "pow2 d \<le> x")
    case True
    with il upper show ?thesis by simp
  next
    case False
    with il lower show ?thesis by (simp add: less_imp_le)
  qed
qed

lemma round_double_error:
  assumes "pow2 (- 1022) \<le> x"
  shows "\<bar>round_double x - x\<bar> \<le> x * pow2 (- 53)"
proof -
  have xpos: "0 < x" using assms pow2_pos [of "- 1022"] by linarith
  define e where "e = ilog2 x"
  from ilog2_bounds [OF xpos] have eb: "pow2 e \<le> x" "x < pow2 (e + 1)"
    by (simp_all add: e_def)
  have "- 1022 < e + 1"
  proof (rule ccontr)
    assume "\<not> - 1022 < e + 1"
    then have "pow2 (e + 1) \<le> pow2 (- 1022)" by (intro pow2_mono) simp
    with eb(2) assms show False by linarith
  qed
  then have emax: "max (e - 52) (- 1074) = e - 52" by simp
  define q where "q = pow2 (e - 52)"
  have qpos: "0 < q" by (simp add: q_def)
  have rd: "round_double x = of_int (round_half_even (x / q)) * q"
    using xpos by (simp add: round_double_def e_def [symmetric] emax q_def Let_def)
  have "\<bar>round_double x - x\<bar> = \<bar>of_int (round_half_even (x / q)) - x / q\<bar> * q"
  proof -
    have "round_double x - x = (of_int (round_half_even (x / q)) - x / q) * q"
      using qpos by (simp add: rd algebra_simps)
    then show ?thesis using qpos by (simp add: abs_mult)
  qed
  also have "\<dots> \<le> (1 / 2) * q"
    using round_half_even_error [of "x / q"] qpos by (simp add: mult_right_mono less_imp_le)
  also have "\<dots> = pow2 e * pow2 (- 53)"
  proof -
    have "pow2 (e - 52) = pow2 e * pow2 (- 52)" using pow2_add [of e "- 52"] by simp
    moreover have "pow2 (- 52) = 2 * pow2 (- 53)" by (simp add: pow2_def)
    ultimately show ?thesis by (simp add: q_def)
  qed
  also have "\<dots> \<le> x * pow2 (- 53)"
    using eb(1) by (simp add: mult_right_mono less_imp_le)
  finally show ?thesis .
qed


lemma pow2_m53: "pow2 (- 53) = 1 / 9007199254740992"
  by (simp add: pow2_def)

lemma pow2_1024_big: "(1000 :: rat) < pow2 1024"
proof -
  have "(1000 :: rat) < pow2 10" by (simp add: pow2_def)
  also have "\<dots> \<le> pow2 1024" by (rule pow2_mono) simp
  finally show ?thesis .
qed

lemma percent_product_close:
  fixes d t :: int
  assumes d: "0 < d" "d \<le> t" and t: "t \<le> 2 ^ 44"
  defines "x \<equiv> (of_int d / of_int t :: rat)"
  shows "\<not> double_overflows (round_double x)"
    and "\<not> double_overflows (round_double (round_double x * 100))"
    and "0 \<le> round_double (round_double x * 100)"
    and "\<bar>round_double (round_double x * 100) - 100 * x\<bar> < 1 / (2 * of_int t)"
proof -
  have tpos: "0 < t" using d by linarith
  have rt: "(0::rat) < of_int t" using tpos by simp
  have x_le1: "x \<le> 1" using d rt by (simp add: x_def pos_divide_le_eq)
  have t_le: "(of_int t :: rat) \<le> 17592186044416"
  proof -
    have "(of_int t :: rat) \<le> of_int (2 ^ 44)" using t by (simp only: of_int_le_iff)
    then show ?thesis by simp
  qed
  have x_lo: "1 / 17592186044416 \<le> x"
  proof -
    have "(1::rat) \<le> of_int d" using d by simp
    then have "1 / of_int t \<le> x" using rt by (simp add: x_def divide_right_mono less_imp_le)
    moreover have "1 / 17592186044416 \<le> 1 / (of_int t :: rat)"
      using rt t_le by (simp add: frac_le)
    ultimately show ?thesis by linarith
  qed
  have x_norm: "pow2 (- 1022) \<le> x"
  proof -
    have "pow2 (- 1022) \<le> pow2 (- 44)" by (rule pow2_mono) simp
    also have "\<dots> = 1 / 17592186044416" by (simp add: pow2_def)
    finally show ?thesis using x_lo by linarith
  qed
  define y where "y = round_double x"
  have ye: "\<bar>y - x\<bar> \<le> x / 9007199254740992"
    using round_double_error [OF x_norm] by (simp add: y_def pow2_m53)
  have y_hi: "y \<le> 101 / 100" using ye x_le1 by linarith
  have y_lo: "1 / 35184372088832 \<le> y" using ye x_lo by linarith
  show "\<not> double_overflows (round_double x)"
    using y_hi pow2_1024_big by (simp add: double_overflows_def y_def [symmetric])
  have y_norm: "pow2 (- 1022) \<le> y * 100"
  proof -
    have "pow2 (- 1022) \<le> pow2 (- 45)" by (rule pow2_mono) simp
    also have "\<dots> = 1 / 35184372088832" by (simp add: pow2_def)
    finally show ?thesis using y_lo by linarith
  qed
  define z where "z = round_double (y * 100)"
  have ze: "\<bar>z - y * 100\<bar> \<le> y * 100 / 9007199254740992"
    using round_double_error [OF y_norm] by (simp add: z_def pow2_m53)
  have z_hi: "z \<le> 102" using ze y_hi by linarith
  show "\<not> double_overflows (round_double (round_double x * 100))"
    using z_hi pow2_1024_big by (simp add: double_overflows_def y_def [symmetric] z_def [symmetric])
  have z_lo: "0 \<le> z" using ze y_lo by linarith
  then show "0 \<le> round_double (round_double x * 100)"
    by (simp add: y_def z_def)
  have "\<bar>z - 100 * x\<bar> < 1 / 35184372088832"
    using ze ye y_hi x_le1 by linarith
  also have "\<dots> \<le> 1 / (2 * of_int t)"
    using rt t_le by (simp add: frac_le)
  finally show "\<bar>round_double (round_double x * 100) - 100 * x\<bar> < 1 / (2 * of_int t)"
    by (simp add: y_def z_def)
qed

lemma nearest_from_close:
  fixes d t :: int and z :: rat
  assumes t: "0 < t" and close: "\<bar>z - 100 * (of_int d / of_int t)\<bar> < 1 / (2 * of_int t)"
  shows "\<bar>of_int (round_half_even z) - 100 * (of_int d / of_int t)\<bar> \<le> (1 / 2 :: rat)"
proof -
  define p where "p = round_half_even z"
  define r :: rat where "r = of_int t"
  define w :: rat where "w = 100 * (of_int d / r)"
  define k where "k = 2 * p * t - 200 * d"
  have rt: "0 < r" using t by (simp add: r_def)
  have pz: "\<bar>of_int p - z\<bar> \<le> 1 / 2" using round_half_even_error [of z] by (simp add: p_def)
  have close': "\<bar>z - w\<bar> < 1 / (2 * r)" using close by (simp add: w_def r_def)
  have kw: "(of_int p - w) * (2 * r) = of_int k"
    using rt by (simp add: w_def k_def r_def field_simps)
  have "\<bar>of_int p - w\<bar> < 1 / 2 + 1 / (2 * r)"
    using pz close' by linarith
  then have "\<bar>of_int p - w\<bar> * (2 * r) < (1 / 2 + 1 / (2 * r)) * (2 * r)"
    using rt by (simp add: mult_strict_right_mono)
  moreover have "(1 / 2 + 1 / (2 * r)) * (2 * r) = r + 1"
    using rt by (simp add: field_simps)
  moreover have "\<bar>of_int p - w\<bar> * (2 * r) = \<bar>of_int k\<bar>"
  proof -
    have "\<bar>(of_int p - w) * (2 * r)\<bar> = \<bar>of_int k :: rat\<bar>" by (simp only: kw)
    then show ?thesis using rt by (simp add: abs_mult)
  qed
  ultimately have "\<bar>of_int k :: rat\<bar> < r + 1" by simp
  then have "(of_int \<bar>k\<bar> :: rat) < of_int (t + 1)" by (simp add: r_def)
  then have "\<bar>k\<bar> < t + 1" by (simp only: of_int_less_iff)
  then have "\<bar>k\<bar> \<le> t" by simp
  then have "(of_int \<bar>k\<bar> :: rat) \<le> of_int t" by (simp only: of_int_le_iff)
  then have le: "\<bar>of_int k :: rat\<bar> \<le> r" by (simp add: r_def)
  have "of_int p - w = of_int k / (2 * r)"
    using rt kw by (simp add: field_simps)
  then have "\<bar>of_int p - w\<bar> = \<bar>of_int k :: rat\<bar> / (2 * r)"
    using rt by (simp add: abs_mult)
  also have "\<dots> \<le> r / (2 * r)"
    using le rt by (simp add: divide_right_mono)
  also have "\<dots> = 1 / 2" using rt by simp
  finally show ?thesis by (simp add: p_def w_def r_def)
qed

lemma pow2_strict_mono: "a < b \<Longrightarrow> pow2 a < pow2 b"
  by (simp add: pow2_powi power_int_strict_increasing)

lemma ilog2_unique:
  assumes "pow2 e \<le> x" and "x < pow2 (e + 1)"
  shows "ilog2 x = e"
proof -
  have xpos: "0 < x" using assms(1) pow2_pos [of e] by linarith
  from ilog2_bounds [OF xpos] have b: "pow2 (ilog2 x) \<le> x" "x < pow2 (ilog2 x + 1)" by simp_all
  have "\<not> ilog2 x < e"
  proof
    assume "ilog2 x < e"
    then have "pow2 (ilog2 x + 1) \<le> pow2 e" by (intro pow2_mono) simp
    with b(2) assms(1) show False by linarith
  qed
  moreover have "\<not> e < ilog2 x"
  proof
    assume "e < ilog2 x"
    then have "pow2 (e + 1) \<le> pow2 (ilog2 x)" by (intro pow2_mono) simp
    with b(1) assms(2) show False by linarith
  qed
  ultimately show ?thesis by simp
qed

lemma round_double_eval:
  assumes "pow2 e \<le> x" and "x < pow2 (e + 1)" and "- 1022 \<le> e"
  shows "round_double x = of_int (round_half_even (x / pow2 (e - 52))) * pow2 (e - 52)"
proof -
  have xpos: "0 < x" using assms(1) pow2_pos [of e] by linarith
  have "max (e - 52) (- 1074) = e - 52" using assms(3) by simp
  then show ?thesis
    using xpos by (simp add: round_double_def ilog2_unique [OF assms(1,2)] Let_def)
qed

lemma round_half_even_eval:
  assumes "\<bar>x - of_int n\<bar> < 1 / 2"
  shows "round_half_even x = n"
proof -
  have "\<bar>of_int (round_half_even x) - x\<bar> \<le> 1 / 2" by (rule round_half_even_error)
  with assms have "\<bar>of_int (round_half_even x) - (of_int n :: rat)\<bar> < 1" by linarith
  then have "(of_int \<bar>round_half_even x - n\<bar> :: rat) < of_int 1" by simp
  then have "\<bar>round_half_even x - n\<bar> < 1" by (simp only: of_int_less_iff)
  then show ?thesis by simp
qed

lemma round_double_value:
  assumes "pow2 e \<le> x" and "x < pow2 (e + 1)" and "- 1022 \<le> e"
    and "\<bar>x / pow2 (e - 52) - of_int n\<bar> < 1 / 2"
  shows "round_double x = of_int n * pow2 (e - 52)"
  by (simp add: round_double_eval [OF assms(1,2,3)] round_half_even_eval [OF assms(4)])

lemma progress_text_value_gen:
  assumes "0 < d" and "0 < t"
    and "pow2 e1 \<le> of_int d / of_int t" and "of_int d / of_int t < pow2 (e1 + 1)"
    and "- 1022 \<le> e1"
    and "\<bar>of_int d / of_int t / pow2 (e1 - 52) - of_int n1\<bar> < 1 / 2"
    and "y = of_int n1 * pow2 (e1 - 52)" and "y < 1000"
    and "pow2 e2 \<le> y * 100" and "y * 100 < pow2 (e2 + 1)" and "- 1022 \<le> e2"
    and "\<bar>y * 100 / pow2 (e2 - 52) - of_int n2\<bar> < 1 / 2"
    and "z = of_int n2 * pow2 (e2 - 52)" and "z < 1000"
    and "round_half_even z = p" and "0 \<le> p"
  shows "progress_text d t
    = Inr (str_int d @ '' of '' @ str_int t @ '' steps ('' @ str_int p @ ''%) done'')"
proof -
  have y: "round_double (of_int d / of_int t) = y"
    using round_double_value [OF assms(3,4,5,6)] assms(7) by simp
  have z: "round_double (y * 100) = z"
    using round_double_value [OF assms(9,10,11,12)] assms(13) by simp
  have ny: "\<not> double_overflows y" and nz: "\<not> double_overflows z"
    using assms(8,14) pow2_1024_big by (simp_all add: double_overflows_def)
  have td: "py_truediv d t = Inr (Finite False y)"
    using assms(1,2) ny by (simp add: py_truediv_def y Let_def)
  have fp: "format_percent0 (Finite False y) = str_int p @ ''%''"
    using nz assms(16) by (simp add: format_percent0_def z assms(15) str_int_def Let_def)
  show ?thesis by (simp add: progress_text_def td fp)
qed

lemma progress_text_value:
  assumes "0 < d" and "0 < t"
    and "pow2 e1 \<le> of_int d / of_int t" and "of_int d / of_int t < pow2 (e1 + 1)"
    and "- 1022 \<le> e1"
    and "\<bar>of_int d / of_int t / pow2 (e1 - 52) - of_int n1\<bar> < 1 / 2"
    and "y = of_int n1 * pow2 (e1 - 52)" and "y < 1000"
    and "pow2 e2 \<le> y * 100" and "y * 100 < pow2 (e2 + 1)" and "- 1022 \<le> e2"
    and "\<bar>y * 100 / pow2 (e2 - 52) - of_int n2\<bar> < 1 / 2"
    and "z = of_int n2 * pow2 (e2 - 52)" and "z < 1000"
    and "\<bar>z - of_int p\<bar> < 1 / 2" and "0 \<le> p"
  shows "progress_text d t
    = Inr (str_int d @ '' of '' @ str_int t @ '' steps ('' @ str_int p @ ''%) done'')"
  by (rule progress_text_value_gen [OF assms(1-14) round_half_even_eval [OF assms(15)] assms(16)])

lemma progress_text_23_40: "progress_text 23 40 = Inr ''23 of 40 steps (57%) done''"
proof -
  have "progress_text 23 40
    = Inr (str_int 23 @ '' of '' @ str_int 40 @ '' steps ('' @ str_int 57 @ ''%) done'')"
    by (rule progress_text_value [where ?e1.0 = "- 1" and ?n1.0 = 5179139571476070
          and y = "5179139571476070 * pow2 (- 53)"
          and ?e2.0 = 5 and ?n2.0 = 8092405580431359
          and z = "8092405580431359 * pow2 (- 47)"])
      (simp_all add: pow2_def)
  then show ?thesis by (simp add: str_int_def str_nat.simps digit_char_def)
qed

lemma progress_text_1_3: "progress_text 1 3 = Inr ''1 of 3 steps (33%) done''"
proof -
  have "progress_text 1 3
    = Inr (str_int 1 @ '' of '' @ str_int 3 @ '' steps ('' @ str_int 33 @ ''%) done'')"
    by (rule progress_text_value [where ?e1.0 = "- 2" and ?n1.0 = 6004799503160661
          and y = "6004799503160661 * pow2 (- 54)"
          and ?e2.0 = 5 and ?n2.0 = 4691249611844266
          and z = "4691249611844266 * pow2 (- 47)"])
      (simp_all add: pow2_def)
  then show ?thesis by (simp add: str_int_def str_nat.simps digit_char_def)
qed

lemma progress_text_3_10: "progress_text 3 10 = Inr ''3 of 10 steps (30%) done''"
proof -
  have "progress_text 3 10
    = Inr (str_int 3 @ '' of '' @ str_int 10 @ '' steps ('' @ str_int 30 @ ''%) done'')"
    by (rule progress_text_value [where ?e1.0 = "- 2" and ?n1.0 = 5404319552844595
          and y = "5404319552844595 * pow2 (- 54)"
          and ?e2.0 = 4 and ?n2.0 = 8444249301319680
          and z = "8444249301319680 * pow2 (- 48)"])
      (simp_all add: pow2_def)
  then show ?thesis by (simp add: str_int_def str_nat.simps digit_char_def)
qed


text \<open>
  Without a bound on \<open>total\<close> the percentage need not be a nearest integer even away
  from the halfway points: here \<open>100 * done / total\<close> is a little above 94.5, the
  double-precision product is 94.5 exactly, and 94 is printed.
\<close>

lemma progress_text_large_total:
  "progress_text 44601781168247 47197652029891
     = Inr ''44601781168247 of 47197652029891 steps (94%) done''"
  "(189 / 2 :: rat) < 100 * 44601781168247 / 47197652029891"
  "(2 :: int) ^ 44 < 47197652029891"
proof -
  have r: "round_half_even (189 / 2) = 94"
    by (simp add: round_half_even_def Let_def floor_divide_of_int_eq [of 189 2, simplified])
  have "progress_text 44601781168247 47197652029891
    = Inr (str_int 44601781168247 @ '' of '' @ str_int 47197652029891 @ '' steps (''
           @ str_int 94 @ ''%) done'')"
    by (rule progress_text_value_gen [where ?e1.0 = "- 1" and ?n1.0 = 8511803295730238
          and y = "8511803295730238 * pow2 (- 53)"
          and ?e2.0 = 6 and ?n2.0 = 6649846324789248
          and z = "6649846324789248 * pow2 (- 46)"])
      (simp_all add: pow2_def r)
  then show "progress_text 44601781168247 47197652029891
     = Inr ''44601781168247 of 47197652029891 steps (94%) done''"
    by (simp add: str_int_def str_nat.simps digit_char_def)
  show "(189 / 2 :: rat) < 100 * 44601781168247 / 47197652029891" by simp
  show "(2 :: int) ^ 44 < 47197652029891" by simp
qed

text \<open>
  C1, as stated, fails: 23 of 40 steps is 57.5 percent, which rounds to 58, and the
  handler prints 57.
\<close>

theorem progress_percent_counterexample:
  "console_handler dumps_ints (Logger_init\<lparr>quiet := Some False\<rparr>) (Progress 23 40)
     = ([(INFO, ''23 of 40 steps (57%) done'')], None)
   \<and> console_handler dumps_ints (Logger_init\<lparr>quiet := Some False\<rparr>) (Progress 23 40)
     \<noteq> ([(INFO, ''23 of 40 steps (58%) done'')], None)
   \<and> round_half_even (100 * 23 / 40) = 58
   \<and> \<lfloor>100 * 23 / 40 + 1 / 2 :: rat\<rfloor> = 58"
proof -
  have "round_half_even (100 * 23 / 40) = 58"
    by (simp add: round_half_even_def Let_def floor_divide_of_int_eq [of 115 2, simplified])
  then show ?thesis
    by (simp add: console_handler_def Logger_init_def progress_text_23_40)
qed

text \<open>
  C1, amended. For every progress event with \<open>0 \<le> done \<le> total\<close> and
  \<open>0 < total \<le> 2\<^sup>4\<^sup>4\<close>, when \<open>quiet\<close> is false, the console handler passes to the
  engine, at severity \<open>INFO\<close>, exactly the string \<open>{done} of {total} steps ({p}%) done\<close>
  where \<open>p\<close> is an integer nearest to \<open>100 * done / total\<close>: it differs from it by at
  most one half. (When \<open>100 * done / total\<close> lies halfway between two integers, which
  of the two is printed follows from the double-precision quotient and product.)
\<close>

theorem progress_percent_nearest:
  assumes "0 \<le> done'" and "done' \<le> total'" and "0 < total'" and "total' \<le> 2 ^ 44"
    and "quiet self = Some False"
  shows "\<exists>p. console_handler dumps self (Progress done' total')
           = ([(INFO, str_int done' @ '' of '' @ str_int total' @ '' steps ('' @ str_int p
                 @ ''%) done'')], None)
         \<and> \<bar>of_int p - 100 * (of_int done' / of_int total')\<bar> \<le> (1 / 2 :: rat)"
proof (cases "done' = 0")
  case True
  have z: "round_half_even 0 = 0" by (simp add: round_half_even_def)
  have np: "\<not> pow2 1024 \<le> 0" using pow2_pos [of 1024] by linarith
  have "progress_text done' total'
      = Inr (str_int done' @ '' of '' @ str_int total' @ '' steps ('' @ str_int 0 @ ''%) done'')"
    using assms(3) True
    by (simp add: progress_text_def py_truediv_def round_double_def double_overflows_def
        format_percent0_def z np str_int_def)
  then have "console_handler dumps self (Progress done' total')
           = ([(INFO, str_int done' @ '' of '' @ str_int total' @ '' steps ('' @ str_int 0
                 @ ''%) done'')], None)"
    using assms(5) by (simp add: console_handler_def)
  moreover have "\<bar>of_int 0 - 100 * (of_int done' / of_int total')\<bar> \<le> (1 / 2 :: rat)"
    using True by simp
  ultimately show ?thesis by blast
next
  case False
  with assms(1) have dpos: "0 < done'" by simp
  define x :: rat where "x = of_int done' / of_int total'"
  define y where "y = round_double x"
  define z where "z = round_double (y * 100)"
  define p where "p = round_half_even z"
  from percent_product_close [OF dpos assms(2) assms(4)]
  have ny: "\<not> double_overflows y" and nz: "\<not> double_overflows z" and z0: "0 \<le> z"
    and close: "\<bar>z - 100 * x\<bar> < 1 / (2 * of_int total')"
    by (simp_all add: x_def y_def z_def)
  have p0: "0 \<le> p" using z0 by (simp add: p_def round_half_even_nonneg)
  have td: "py_truediv done' total' = Inr (Finite False y)"
    using dpos assms(3) ny by (simp add: py_truediv_def x_def y_def Let_def)
  have fp: "format_percent0 (Finite False y) = str_int p @ ''%''"
    using nz p0 by (simp add: format_percent0_def z_def [symmetric] p_def [symmetric] str_int_def
        Let_def)
  have "progress_text done' total'
      = Inr (str_int done' @ '' of '' @ str_int total' @ '' steps ('' @ str_int p @ ''%) done'')"
    by (simp add: progress_text_def td fp)
  then have "console_handler dumps self (Progress done' total')
           = ([(INFO, str_int done' @ '' of '' @ str_int total' @ '' steps ('' @ str_int p
                 @ ''%) done'')], None)"
    using assms(5) by (simp add: console_handler_def)
  moreover have "\<bar>of_int p - 100 * (of_int done' / of_int total')\<bar> \<le> (1 / 2 :: rat)"
    using nearest_from_close [OF assms(3), of z done'] close by (simp add: p_def x_def)
  ultimately show ?thesis by blast
qed

theorem progress_percent_nearest_witness:
  "(\<exists>p. console_handler dumps_ints (Logger_init\<lparr>quiet := Some False\<rparr>) (Progress 1 3)
           = ([(INFO, str_int 1 @ '' of '' @ str_int 3 @ '' steps ('' @ str_int p
                 @ ''%) done'')], None)
         \<and> \<bar>of_int p - 100 * (of_int 1 / of_int 3)\<bar> \<le> (1 / 2 :: rat))
   \<and> console_handler dumps_ints (Logger_init\<lparr>quiet := Some False\<rparr>) (Progress 1 3)
       = ([(INFO, ''1 of 3 steps (33%) done'')], None)
   \<and> console_handler dumps_ints (Logger_init\<lparr>quiet := Some False\<rparr>) (Progress 3 10)
       = ([(INFO, ''3 of 10 steps (30%) done'')], None)"
proof -
  have a: "quiet (Logger_init\<lparr>quiet := Some False\<rparr> :: int list Logger) = Some False"
    by (simp add: Logger_init_def)
  have b: "console_handler dumps_ints (Logger_init\<lparr>quiet := Some False\<rparr>) (Progress 1 3)
       = ([(INFO, ''1 of 3 steps (33%) done'')], None)"
    by (simp add: console_handler_def Logger_init_def progress_text_1_3)
  have c: "console_handler dumps_ints (Logger_init\<lparr>quiet := Some False\<rparr>) (Progress 3 10)
       = ([(INFO, ''3 of 10 steps (30%) done'')], None)"
    by (simp add: console_handler_def Logger_init_def progress_text_3_10)
  from progress_percent_nearest [of 1 3 "Logger_init\<lparr>quiet := Some False\<rparr>" dumps_ints, OF _ _ _ _ a]
  have "\<exists>p. console_handler dumps_ints (Logger_init\<lparr>quiet := Some False\<rparr>) (Progress 1 3)
           = ([(INFO, str_int 1 @ '' of '' @ str_int 3 @ '' steps ('' @ str_int p
                 @ ''%) done'')], None)
         \<and> \<bar>of_int p - 100 * (of_int 1 / of_int 3)\<bar> \<le> (1 / 2 :: rat)"
    by simp
  with b c show ?thesis by blast
qed

end
